theory Spec2Isabelle
  imports Complex_Main "HOL-Library.AList" "HOL-Library.Sublist"
begin

section \<open>Python values used by \<open>inventory.py\<close>\<close>

subsection \<open>Strings and \<open>str.strip()\<close>\<close>

text \<open>
  A Python \<open>str\<close> is modelled as a \<^typ>\<open>string\<close>; every \<^typ>\<open>char\<close> stands for the code
  point of the same number, so the model covers the code points below 256.
  \<open>isspace\<close> lists the code points below 256 that \<open>str.isspace\<close> accepts: tab, line feed,
  vertical tab, form feed, carriage return, the separators 28 to 31, the space, NEL (133)
  and the no-break space (160). \<open>strip\<close> is \<open>str.strip()\<close> with no argument.
\<close>

definition isspace :: "char \<Rightarrow> bool" where
  "isspace c = ((of_char c :: nat) \<in> {9, 10, 11, 12, 13, 28, 29, 30, 31, 32, 133, 160})"

definition strip :: "string \<Rightarrow> string" where
  "strip s = rev (dropWhile isspace (rev (dropWhile isspace s)))"

text \<open>\<open>str(n)\<close> for a Python \<open>int\<close>: decimal digits, a minus sign for negative numbers.\<close>

definition digit_char :: "nat \<Rightarrow> char" where
  "digit_char d = char_of (48 + d)"

fun str_nat :: "nat \<Rightarrow> string" where
  "str_nat n = (if n < 10 then [digit_char n] else str_nat (n div 10) @ [digit_char (n mod 10)])"

declare str_nat.simps [simp del]

definition str_int :: "int \<Rightarrow> string" where
  "str_int i = (if i < 0 then CHR ''-'' # str_nat (nat (- i)) else str_nat (nat i))"

subsection \<open>Exceptions\<close>

text \<open>
  \<open>OverflowError\<close> is what Python raises when an \<open>int\<close> is too large to become a
  \<open>float\<close>. \<open>NotACatalog\<close> stands for a file \<open>inventory.json\<close> that holds no catalog.
\<close>

datatype error = NotACatalog | OverflowError

subsection \<open>Floats\<close>

text \<open>
  A Python \<open>float\<close> is an IEEE 754 double: a finite number, an infinity or NaN. A float
  is modelled by its value, so the two zeros are one value (they are equal in Python),
  and the text that \<open>print\<close> shows for a float is not modelled. The comparisons follow
  IEEE 754: every comparison with NaN is false.
\<close>

datatype pyfloat = Finite real | PosInf | NegInf | NaN

text \<open>\<open>x < 0\<close> and \<open>x >= 0\<close> for a float \<open>x\<close>.\<close>

fun float_lt0 :: "pyfloat \<Rightarrow> bool" where
  "float_lt0 (Finite r) = (r < 0)"
| "float_lt0 NegInf = True"
| "float_lt0 PosInf = False"
| "float_lt0 NaN = False"

fun float_ge0 :: "pyfloat \<Rightarrow> bool" where
  "float_ge0 (Finite r) = (0 \<le> r)"
| "float_ge0 PosInf = True"
| "float_ge0 NegInf = False"
| "float_ge0 NaN = False"

text \<open>
  The program computes with floats in two places of \<open>Admin.view_products\<close>:
  \<open>quantity * price\<close>, an \<open>int\<close> times a float, which raises \<open>OverflowError\<close> when the
  \<open>int\<close> is too large to become a float, and \<open>total_value += value\<close>, a sum of floats,
  which raises nothing. The methods take these two operations as a parameter, so that
  what is proved of a method holds whatever the operations compute.
\<close>

record arithmetic =
  int_times_float :: "int \<Rightarrow> pyfloat \<Rightarrow> error + pyfloat"
  float_add :: "pyfloat \<Rightarrow> pyfloat \<Rightarrow> pyfloat"

text \<open>
  The arithmetic of CPython on IEEE 754 doubles. \<open>bit_length\<close> is \<open>int.bit_length\<close>;
  \<open>binade x\<close> is the \<open>e\<close> with \<open>2 ^ e \<le> x < 2 ^ (e + 1)\<close> for a positive \<open>x\<close>.
  \<open>round_double x\<close> is the double nearest to \<open>x\<close>, the one with the even significand of 53
  bits when two are equally near; below \<open>2 ^ (-1022)\<close> the doubles are \<open>2 ^ (-1074)\<close>
  apart, and a result of \<open>2 ^ 1024\<close> or more is an infinity.
\<close>

function bit_length :: "int \<Rightarrow> int" where
  "bit_length n = (if n \<le> 0 then 0 else 1 + bit_length (n div 2))"
  by pat_completeness auto
termination
  by (relation "measure nat") auto

declare bit_length.simps [simp del]

definition binade :: "real \<Rightarrow> int" where
  "binade x = (if 1 \<le> x then bit_length \<lfloor>x\<rfloor> - 1 else - bit_length (\<lceil>1 / x\<rceil> - 1))"

definition pow2 :: "int \<Rightarrow> real" where
  "pow2 e = (if 0 \<le> e then 2 ^ nat e else 1 / 2 ^ nat (- e))"

definition round_half_even :: "real \<Rightarrow> int" where
  "round_half_even x =
     (let f = \<lfloor>x\<rfloor>; d = x - of_int f
      in if d < 1 / 2 then f else if 1 / 2 < d then f + 1 else if even f then f else f + 1)"

definition round_double :: "real \<Rightarrow> pyfloat" where
  "round_double x =
     (if x = 0 then Finite 0
      else
        let e = max (binade \<bar>x\<bar> - 52) (- 1074);
            y = of_int (round_half_even (x / pow2 e)) * pow2 e
        in if 2 ^ 1024 \<le> \<bar>y\<bar> then (if 0 < x then PosInf else NegInf) else Finite y)"

text \<open>
  \<open>float(n)\<close> for an \<open>int\<close> \<open>n\<close> rounds in the same way and raises \<open>OverflowError\<close>
  instead of returning an infinity. \<open>q * x\<close> for an \<open>int\<close> \<open>q\<close> and a float \<open>x\<close> is
  \<open>float(q) * x\<close>. The operands of \<open>double_mul\<close> and \<open>double_add\<close> are doubles.
\<close>

definition float_of_int :: "int \<Rightarrow> error + pyfloat" where
  "float_of_int n =
     (case round_double (of_int n) of Finite y \<Rightarrow> Inr (Finite y) | _ \<Rightarrow> Inl OverflowError)"

fun double_mul :: "pyfloat \<Rightarrow> pyfloat \<Rightarrow> pyfloat" where
  "double_mul (Finite a) (Finite b) = round_double (a * b)"
| "double_mul NaN y = NaN"
| "double_mul x NaN = NaN"
| "double_mul (Finite a) PosInf = (if a = 0 then NaN else if 0 < a then PosInf else NegInf)"
| "double_mul (Finite a) NegInf = (if a = 0 then NaN else if 0 < a then NegInf else PosInf)"
| "double_mul PosInf (Finite b) = (if b = 0 then NaN else if 0 < b then PosInf else NegInf)"
| "double_mul NegInf (Finite b) = (if b = 0 then NaN else if 0 < b then NegInf else PosInf)"
| "double_mul PosInf PosInf = PosInf"
| "double_mul NegInf NegInf = PosInf"
| "double_mul PosInf NegInf = NegInf"
| "double_mul NegInf PosInf = NegInf"

fun double_add :: "pyfloat \<Rightarrow> pyfloat \<Rightarrow> pyfloat" where
  "double_add (Finite a) (Finite b) = round_double (a + b)"
| "double_add NaN y = NaN"
| "double_add x NaN = NaN"
| "double_add PosInf NegInf = NaN"
| "double_add NegInf PosInf = NaN"
| "double_add PosInf y = PosInf"
| "double_add NegInf y = NegInf"
| "double_add x PosInf = PosInf"
| "double_add x NegInf = NegInf"

definition int_times_double :: "int \<Rightarrow> pyfloat \<Rightarrow> error + pyfloat" where
  "int_times_double q x =
     (case float_of_int q of Inl e \<Rightarrow> Inl e | Inr y \<Rightarrow> Inr (double_mul y x))"

definition double_arithmetic :: arithmetic where
  "double_arithmetic = \<lparr>int_times_float = int_times_double, float_add = double_add\<rparr>"

subsection \<open>Dictionaries\<close>

text \<open>
  A Python \<open>dict\<close> keeps its keys in insertion order, so it is an association list.
  \<open>d[k] = v\<close> replaces the value of an existing key where it stands and puts a new key
  last (\<^const>\<open>AList.update\<close>); \<open>del d[k]\<close> removes the key (\<^const>\<open>AList.delete\<close>);
  \<open>k in d\<close> is \<open>contains\<close>. The keys of a \<open>dict\<close> are unique: \<open>distinct (keys d)\<close>.
\<close>

type_synonym ('k, 'v) dict = "('k \<times> 'v) list"

definition keys :: "('k, 'v) dict \<Rightarrow> 'k list" where
  "keys d = map fst d"

definition contains :: "'k \<Rightarrow> ('k, 'v) dict \<Rightarrow> bool" where
  "contains k d = (k \<in> set (keys d))"

subsection \<open>The catalog\<close>

text \<open>
  \<open>self.inventory\<close> maps a product ID to \<open>{"name": ..., "quantity": ..., "price": ...}\<close>.
\<close>

record product =
  name :: string
  quantity :: int
  price :: pyfloat

type_synonym catalog = "(string, product) dict"

section \<open>Files\<close>

subsection \<open>JSON documents\<close>

text \<open>
  \<open>inventory.json\<close> is written by \<open>json.dump\<close> and read by \<open>json.load\<close>. The model keeps
  the document that the text of the file denotes; the text itself (indentation, escapes,
  the digits of a number) is the \<open>json\<close> module's business and is not modelled.
\<close>

datatype json =
    JNull
  | JBool bool
  | JInt int
  | JFloat pyfloat
  | JStr string
  | JArr "json list"
  | JObj "(string \<times> json) list"

text \<open>\<open>json.dump\<close> of a catalog: one member per product, in the order of the \<open>dict\<close>.\<close>

definition product_to_json :: "product \<Rightarrow> json" where
  "product_to_json d =
     JObj [(''name'', JStr (name d)), (''quantity'', JInt (quantity d)), (''price'', JFloat (price d))]"

definition json_dump :: "catalog \<Rightarrow> json" where
  "json_dump inventory = JObj (map (\<lambda>(pid, d). (pid, product_to_json d)) inventory)"

text \<open>
  \<open>json.load\<close> builds a \<open>dict\<close> from the members of an object, one assignment per member,
  so a repeated key keeps its first position and its last value. A document that is not
  an object of products is no catalog.
\<close>

definition dict_of_pairs :: "('k \<times> 'v) list \<Rightarrow> ('k, 'v) dict" where
  "dict_of_pairs kvs = foldl (\<lambda>d (k, v). AList.update k v d) [] kvs"

fun product_of_json :: "json \<Rightarrow> product option" where
  "product_of_json (JObj kvs) =
     (let d = dict_of_pairs kvs in
      case (map_of d ''name'', map_of d ''quantity'', map_of d ''price'') of
        (Some (JStr n), Some (JInt q), Some (JFloat p)) \<Rightarrow>
          Some \<lparr>name = n, quantity = q, price = p\<rparr>
      | _ \<Rightarrow> None)"
| "product_of_json _ = None"

fun json_load :: "json \<Rightarrow> catalog option" where
  "json_load (JObj kvs) =
     those (map (\<lambda>(pid, j). map_option (Pair pid) (product_of_json j)) (dict_of_pairs kvs))"
| "json_load _ = None"

subsection \<open>The world outside the process\<close>

text \<open>What the program prints, one value per \<open>print\<close> call.\<close>

datatype printed =
    EmptyIdMsg
  | DuplicateIdMsg
  | NegativeMsg
  | ProductAddedMsg
  | AddValueErrorMsg
  | NotFoundMsg
  | ProductDeletedMsg
  | InventoryEmptyMsg
  | ProductListHeader
  | ProductBlock string string int pyfloat pyfloat
  | LowStockAlert
  | TotalValueMsg pyfloat
  | QuantityNegativeMsg
  | StockUpdatedMsg
  | QuantityValueErrorMsg
  | StaffLogHeader
  | StaffLogText string
  | NoStaffActivityMsg
  | StaffProductLine string string int pyfloat

text \<open>
  \<open>inventory_json\<close> and \<open>staff_log_txt\<close> are the two files, \<open>None\<close> when the file does not
  exist. \<open>save_calls\<close> counts the calls of \<open>save_inventory\<close>, each of which rewrites
  \<open>inventory.json\<close>.
\<close>

record world =
  inventory_json :: "json option"
  staff_log_txt :: "string option"
  stdout :: "printed list"
  save_calls :: nat

definition print :: "printed \<Rightarrow> world \<Rightarrow> world" where
  "print m w = w\<lparr>stdout := stdout w @ [m]\<rparr>"

subsection \<open>File handling functions\<close>

definition load_inventory :: "world \<Rightarrow> error + catalog" where
  "load_inventory w =
     (case inventory_json w of
        Some doc \<Rightarrow> (case json_load doc of Some inventory \<Rightarrow> Inr inventory | None \<Rightarrow> Inl NotACatalog)
      | None \<Rightarrow> Inr [])"

definition save_inventory :: "catalog \<Rightarrow> world \<Rightarrow> world" where
  "save_inventory inventory w =
     w\<lparr>inventory_json := Some (json_dump inventory), save_calls := Suc (save_calls w)\<rparr>"

text \<open>
  \<open>log_staff_action\<close> opens \<open>staff_log.txt\<close> for appending, which creates a missing file,
  and writes one line. \<open>now\<close> is the text of \<open>datetime.now()\<close> at the call.
\<close>

definition log_staff_action :: "string \<Rightarrow> string \<Rightarrow> world \<Rightarrow> world" where
  "log_staff_action now action w =
     w\<lparr>staff_log_txt :=
         Some ((case staff_log_txt w of None \<Rightarrow> [] | Some old \<Rightarrow> old)
               @ now @ '' - '' @ action @ [CHR 0x0A])\<rparr>"

section \<open>The roles\<close>

text \<open>
  Every method reads its input with \<open>input(...)\<close>. A product ID or a name arrives as the
  line the user typed. A quantity or a price arrives as the outcome of \<open>int(...)\<close> or
  \<open>float(...)\<close> on the line: the number, or \<open>ValueError\<close>, which the method catches.
  A method works on \<open>self.inventory\<close> and on the world, and returns both.
  What no method catches (the end of the input, a file that cannot be opened or written)
  ends the process and is outside the model.
\<close>

datatype 'a entered = ValueError | Parsed 'a

type_synonym state = "catalog \<times> world"

text \<open>
  A method returns, or it raises an exception that nothing catches, which ends the
  process; either way there is the state it has reached.
\<close>

datatype outcome = Returned state | Raised error state

fun state_of :: "outcome \<Rightarrow> state" where
  "state_of (Returned s) = s"
| "state_of (Raised e s) = s"

subsection \<open>Admin\<close>

text \<open>\<open>Admin.__init__\<close> and \<open>Staff.__init__\<close> set \<open>self.inventory = load_inventory()\<close>.\<close>

definition Admin_init :: "world \<Rightarrow> error + state" where
  "Admin_init w = (case load_inventory w of Inl e \<Rightarrow> Inl e | Inr inventory \<Rightarrow> Inr (inventory, w))"

definition Admin_add_product ::
  "string \<Rightarrow> string \<Rightarrow> int entered \<Rightarrow> pyfloat entered \<Rightarrow> state \<Rightarrow> state" where
  "Admin_add_product pid_line name_line quantity_in price_in s =
     (case s of (inventory, w) \<Rightarrow>
        let pid = strip pid_line in
        if pid = [] then (inventory, print EmptyIdMsg w)
        else if contains pid inventory then (inventory, print DuplicateIdMsg w)
        else
          let nm = strip name_line in
          (case quantity_in of
             ValueError \<Rightarrow> (inventory, print AddValueErrorMsg w)
           | Parsed q \<Rightarrow>
               (case price_in of
                  ValueError \<Rightarrow> (inventory, print AddValueErrorMsg w)
                | Parsed p \<Rightarrow>
                    if q < 0 \<or> float_lt0 p then (inventory, print NegativeMsg w)
                    else
                      let inventory' =
                            AList.update pid \<lparr>name = nm, quantity = q, price = p\<rparr> inventory;
                          w' = save_inventory inventory' w
                      in (inventory', print ProductAddedMsg w'))))"

definition Admin_delete_product :: "string \<Rightarrow> state \<Rightarrow> state" where
  "Admin_delete_product pid_line s =
     (case s of (inventory, w) \<Rightarrow>
        let pid = strip pid_line in
        if \<not> contains pid inventory then (inventory, print NotFoundMsg w)
        else
          let inventory' = AList.delete pid inventory;
              w' = save_inventory inventory' w
          in (inventory', print ProductDeletedMsg w'))"

text \<open>
  The loop of \<open>Admin.view_products\<close>, with the arithmetic \<open>ar\<close>. When the product of a
  quantity and a price raises, the loop ends there, with what was printed before.
  \<open>total_value\<close> starts as the \<open>int\<close> 0, and \<open>0 + value\<close> is \<open>float(0) + value\<close>, so it
  starts as \<open>Finite 0\<close> here.
\<close>

fun view_products_loop ::
  "arithmetic \<Rightarrow> (string \<times> product) list \<Rightarrow> pyfloat \<Rightarrow> world
     \<Rightarrow> (error \<times> world) + (pyfloat \<times> world)" where
  "view_products_loop ar [] total_value w = Inr (total_value, w)"
| "view_products_loop ar ((pid, details) # rest) total_value w =
     (case int_times_float ar (quantity details) (price details) of
        Inl e \<Rightarrow> Inl (e, w)
      | Inr v \<Rightarrow>
          let total_value' = float_add ar total_value v;
              w1 = print (ProductBlock pid (name details) (quantity details) (price details) v) w;
              w2 = (if quantity details < 5 then print LowStockAlert w1 else w1)
          in view_products_loop ar rest total_value' w2)"

definition Admin_view_products :: "arithmetic \<Rightarrow> state \<Rightarrow> outcome" where
  "Admin_view_products ar s =
     (case s of (inventory, w) \<Rightarrow>
        if inventory = [] then Returned (inventory, print InventoryEmptyMsg w)
        else
          (case view_products_loop ar inventory (Finite 0) (print ProductListHeader w) of
             Inl (e, w') \<Rightarrow> Raised e (inventory, w')
           | Inr (total_value, w') \<Rightarrow>
               Returned (inventory, print (TotalValueMsg total_value) w')))"

definition Admin_update_stock :: "string \<Rightarrow> int entered \<Rightarrow> state \<Rightarrow> state" where
  "Admin_update_stock pid_line quantity_in s =
     (case s of (inventory, w) \<Rightarrow>
        let pid = strip pid_line in
        if \<not> contains pid inventory then (inventory, print NotFoundMsg w)
        else
          (case quantity_in of
             ValueError \<Rightarrow> (inventory, print QuantityValueErrorMsg w)
           | Parsed q \<Rightarrow>
               if q < 0 then (inventory, print QuantityNegativeMsg w)
               else
                 let inventory' = AList.map_entry pid (\<lambda>d. d\<lparr>quantity := q\<rparr>) inventory;
                     w' = save_inventory inventory' w
                 in (inventory', print StockUpdatedMsg w')))"

definition Admin_view_staff_logs :: "state \<Rightarrow> state" where
  "Admin_view_staff_logs s =
     (case s of (inventory, w) \<Rightarrow>
        (case staff_log_txt w of
           Some content \<Rightarrow> (inventory, print (StaffLogText content) (print StaffLogHeader w))
         | None \<Rightarrow> (inventory, print NoStaffActivityMsg w)))"

subsection \<open>Staff\<close>

definition Staff_init :: "world \<Rightarrow> error + state" where
  "Staff_init w = (case load_inventory w of Inl e \<Rightarrow> Inl e | Inr inventory \<Rightarrow> Inr (inventory, w))"

definition Staff_view_products :: "state \<Rightarrow> state" where
  "Staff_view_products s =
     (case s of (inventory, w) \<Rightarrow>
        if inventory = [] then (inventory, print InventoryEmptyMsg w)
        else
          (inventory,
           foldl (\<lambda>w' (pid, details).
                    print (StaffProductLine pid (name details) (quantity details) (price details)) w')
             (print ProductListHeader w) inventory))"

text \<open>The text that \<open>Staff.update_stock\<close> hands to \<open>log_staff_action\<close>.\<close>

definition staff_action :: "string \<Rightarrow> int \<Rightarrow> string" where
  "staff_action pid q = ''Staff updated stock of Product ID '' @ pid @ '' to '' @ str_int q"

text \<open>\<open>now\<close> is the text of \<open>datetime.now()\<close> when the action is logged.\<close>

definition Staff_update_stock :: "string \<Rightarrow> string \<Rightarrow> int entered \<Rightarrow> state \<Rightarrow> state" where
  "Staff_update_stock now pid_line quantity_in s =
     (case s of (inventory, w) \<Rightarrow>
        let pid = strip pid_line in
        if \<not> contains pid inventory then (inventory, print NotFoundMsg w)
        else
          (case quantity_in of
             ValueError \<Rightarrow> (inventory, print QuantityValueErrorMsg w)
           | Parsed q \<Rightarrow>
               if q < 0 then (inventory, print QuantityNegativeMsg w)
               else
                 let inventory' = AList.map_entry pid (\<lambda>d. d\<lparr>quantity := q\<rparr>) inventory;
                     w' = save_inventory inventory' w;
                     w'' = log_staff_action now (staff_action pid q) w'
                 in (inventory', print StockUpdatedMsg w'')))"

subsection \<open>The menus\<close>

text \<open>
  One value per operation that a menu of \<open>main\<close> can start, with what the user enters
  for it; a session is a list of them, run in order until one raises.
\<close>

datatype admin_op =
    AddProduct string string "int entered" "pyfloat entered"
  | ViewProducts
  | UpdateStock string "int entered"
  | DeleteProduct string
  | ViewStaffLogs

fun admin_do :: "arithmetic \<Rightarrow> admin_op \<Rightarrow> state \<Rightarrow> outcome" where
  "admin_do ar (AddProduct pid_line name_line quantity_in price_in) s =
     Returned (Admin_add_product pid_line name_line quantity_in price_in s)"
| "admin_do ar ViewProducts s = Admin_view_products ar s"
| "admin_do ar (UpdateStock pid_line quantity_in) s =
     Returned (Admin_update_stock pid_line quantity_in s)"
| "admin_do ar (DeleteProduct pid_line) s = Returned (Admin_delete_product pid_line s)"
| "admin_do ar ViewStaffLogs s = Returned (Admin_view_staff_logs s)"

fun admin_session :: "arithmetic \<Rightarrow> admin_op list \<Rightarrow> state \<Rightarrow> outcome" where
  "admin_session ar [] s = Returned s"
| "admin_session ar (op # ops) s =
     (case admin_do ar op s of
        Returned s' \<Rightarrow> admin_session ar ops s'
      | Raised e s' \<Rightarrow> Raised e s')"

datatype staff_op =
    StaffViewProducts
  | StaffUpdateStock string string "int entered"

fun staff_do :: "staff_op \<Rightarrow> state \<Rightarrow> state" where
  "staff_do StaffViewProducts s = Staff_view_products s"
| "staff_do (StaffUpdateStock now pid_line quantity_in) s =
     Staff_update_stock now pid_line quantity_in s"

fun staff_session :: "staff_op list \<Rightarrow> state \<Rightarrow> state" where
  "staff_session [] s = s"
| "staff_session (op # ops) s = staff_session ops (staff_do op s)"

section \<open>Vocabulary of the properties\<close>

text \<open>
  A valid catalog: the product IDs are unique and not empty, every quantity and every
  price is at least 0. A named catalog also has no empty product name.
\<close>

definition valid_product :: "string \<times> product \<Rightarrow> bool" where
  "valid_product e = (case e of (pid, d) \<Rightarrow> pid \<noteq> [] \<and> 0 \<le> quantity d \<and> float_ge0 (price d))"

definition valid_catalog :: "catalog \<Rightarrow> bool" where
  "valid_catalog c = (distinct (keys c) \<and> list_all valid_product c)"

definition named_catalog :: "catalog \<Rightarrow> bool" where
  "named_catalog c = (valid_catalog c \<and> list_all (\<lambda>(pid, d). name d \<noteq> []) c)"

text \<open>A world with no file and nothing printed, and a catalog of one product.\<close>

definition fresh_world :: world where
  "fresh_world = \<lparr>inventory_json = None, staff_log_txt = None, stdout = [], save_calls = 0\<rparr>"

definition pen :: product where
  "pen = \<lparr>name = ''Pen'', quantity = 10, price = Finite (5 / 2)\<rparr>"

definition pen_catalog :: catalog where
  "pen_catalog = [(''P1'', pen)]"

text \<open>
  \<open>with_quantity pid q c\<close> is the catalog \<open>c\<close> with the quantity of product \<open>pid\<close> set
  to \<open>q\<close>: every entry keeps its place, its ID, its name and its price.
  \<open>without pid c\<close> is \<open>c\<close> with the entry of \<open>pid\<close> taken out: the other entries stay as
  they are, in their order.
\<close>

definition with_quantity :: "string \<Rightarrow> int \<Rightarrow> catalog \<Rightarrow> catalog" where
  "with_quantity pid q c = map (\<lambda>(k, d). if k = pid then (k, d\<lparr>quantity := q\<rparr>) else (k, d)) c"

definition without :: "string \<Rightarrow> catalog \<Rightarrow> catalog" where
  "without pid c = filter (\<lambda>(k, d). k \<noteq> pid) c"

text \<open>The messages that \<open>Admin.add_product\<close> prints when it rejects its input.\<close>

definition add_rejections :: "printed set" where
  "add_rejections = {EmptyIdMsg, DuplicateIdMsg, AddValueErrorMsg, NegativeMsg}"

text \<open>
  The text of \<open>staff_log.txt\<close>, empty when the file does not exist, and the character
  that ends a line.
\<close>

definition log_text :: "world \<Rightarrow> string" where
  "log_text w = (case staff_log_txt w of None \<Rightarrow> [] | Some content \<Rightarrow> content)"

definition newline :: char where
  "newline = CHR 0x0A"

text \<open>An \<open>int\<close> of 310 digits, which a user can enter as a quantity.\<close>

definition huge :: int where
  "huge = 10 ^ 309"

text \<open>
  The value of a product is its quantity times its price, as the arithmetic computes
  it. The report of one catalog entry with the value \<open>v\<close> is its ID, name, quantity,
  price and \<open>v\<close>, followed by the low-stock alert exactly when the quantity is below 5.
  The total of a list of values adds them in their order, starting from 0.
\<close>

definition product_value :: "arithmetic \<Rightarrow> product \<Rightarrow> error + pyfloat" where
  "product_value ar d = int_times_float ar (quantity d) (price d)"

definition product_report :: "string \<times> product \<Rightarrow> pyfloat \<Rightarrow> printed list" where
  "product_report e v =
     (case e of (pid, d) \<Rightarrow>
        ProductBlock pid (name d) (quantity d) (price d) v
        # (if quantity d < 5 then [LowStockAlert] else []))"

definition float_sum :: "arithmetic \<Rightarrow> pyfloat list \<Rightarrow> pyfloat" where
  "float_sum ar vs = foldl (float_add ar) (Finite 0) vs"

section \<open>Properties\<close>

subsection \<open>Dictionaries and JSON documents\<close>

lemma update_fresh: "k \<notin> fst ` set d \<Longrightarrow> AList.update k v d = d @ [(k, v)]"
  by (induction d) auto

lemma foldl_update_distinct:
  "distinct (map fst (acc @ kvs)) \<Longrightarrow>
   foldl (\<lambda>d (k, v). AList.update k v d) acc kvs = acc @ kvs"
proof (induction kvs arbitrary: acc)
  case Nil
  then show ?case by simp
next
  case (Cons kv kvs)
  obtain k v where kv: "kv = (k, v)" by (cases kv)
  from Cons.prems have fresh: "k \<notin> fst ` set acc" by (auto simp: kv)
  from Cons.prems have "distinct (map fst ((acc @ [(k, v)]) @ kvs))" by (auto simp: kv)
  from Cons.IH [OF this] show ?case by (simp add: kv update_fresh [OF fresh])
qed

lemma dict_of_pairs_distinct: "distinct (map fst kvs) \<Longrightarrow> dict_of_pairs kvs = kvs"
  using foldl_update_distinct [of "[]" kvs] by (simp add: dict_of_pairs_def)

lemma product_of_json_to_json: "product_of_json (product_to_json d) = Some d"
  by (simp add: product_to_json_def dict_of_pairs_def)

lemma those_products:
  "those (map (\<lambda>(pid, j). map_option (Pair pid) (product_of_json j))
              (map (\<lambda>(pid, d). (pid, product_to_json d)) xs)) = Some xs"
  by (induction xs) (auto simp: product_of_json_to_json)

lemma json_load_dump: "distinct (keys c) \<Longrightarrow> json_load (json_dump c) = Some c"
proof -
  assume d: "distinct (keys c)"
  let ?kvs = "map (\<lambda>(pid, d). (pid, product_to_json d)) c"
  have m: "map fst ?kvs = map fst c"
    by (induction c) auto
  from d have "distinct (map fst ?kvs)"
    unfolding m keys_def .
  then have "dict_of_pairs ?kvs = ?kvs"
    by (rule dict_of_pairs_distinct)
  then show ?thesis
    by (simp only: json_dump_def json_load.simps those_products)
qed

lemma valid_pen_catalog: "valid_catalog pen_catalog"
  by (simp add: valid_catalog_def valid_product_def pen_catalog_def pen_def keys_def)

subsection \<open>Saving and loading\<close>

text \<open>
  C1: for every valid catalog, \<open>save_inventory\<close> followed by \<open>load_inventory\<close> returns a
  catalog equal to the one that was saved, whatever the files held before.
\<close>

theorem save_load_roundtrip:
  assumes "valid_catalog c"
  shows "load_inventory (save_inventory c w) = Inr c"
proof -
  from assms have "distinct (keys c)"
    by (simp add: valid_catalog_def)
  then have "json_load (json_dump c) = Some c"
    by (rule json_load_dump)
  then show ?thesis
    by (simp add: load_inventory_def save_inventory_def)
qed

theorem save_load_roundtrip_witness:
  "valid_catalog pen_catalog \<and>
   load_inventory (save_inventory pen_catalog fresh_world) = Inr pen_catalog"
  using valid_pen_catalog save_load_roundtrip [OF valid_pen_catalog, of fresh_world]
  by (rule conjI)

text \<open>
  C9: when \<open>inventory.json\<close> does not exist, \<open>load_inventory\<close> returns the empty
  catalog and raises nothing.
\<close>

theorem load_inventory_missing_file:
  assumes "inventory_json w = None"
  shows "load_inventory w = Inr []"
  using assms by (simp add: load_inventory_def)

theorem load_inventory_missing_file_witness:
  "inventory_json fresh_world = None \<and> load_inventory fresh_world = Inr []"
proof -
  have h: "inventory_json fresh_world = None"
    by (simp add: fresh_world_def)
  from h load_inventory_missing_file [OF h] show ?thesis
    by (rule conjI)
qed

subsection \<open>Stripping\<close>

lemma strip_whitespace:
  assumes "list_all isspace s"
  shows "strip s = []"
proof -
  from assms have "dropWhile isspace s = []"
    by (induction s) auto
  then show ?thesis
    unfolding strip_def by (simp only: rev.simps dropWhile.simps)
qed

lemma dropWhile_all: "list_all P l \<Longrightarrow> dropWhile P (l @ s) = dropWhile P s"
  by (simp add: list_all_iff)

lemma dropWhile_trailing:
  assumes "list_all P r"
  shows "rev (dropWhile P (rev (s @ r))) = rev (dropWhile P (rev s))"
proof -
  from assms have "list_all P (rev r)" by (simp add: list_all_iff)
  then show ?thesis by (simp add: dropWhile_all)
qed

lemma strip_surrounded:
  assumes l: "list_all isspace l" and r: "list_all isspace r"
  shows "strip (l @ s @ r) = strip s"
proof (cases "list_all isspace s")
  case True
  with l r have "list_all isspace (l @ s @ r)" by simp
  then show ?thesis using True by (simp only: strip_whitespace)
next
  case False
  then obtain x where x: "x \<in> set s" "\<not> isspace x" by (auto simp: list_all_iff)
  have "dropWhile isspace (l @ s @ r) = dropWhile isspace (s @ r)"
    using l by (rule dropWhile_all)
  also have "\<dots> = dropWhile isspace s @ r"
    using x by (rule dropWhile_append1)
  finally show ?thesis
    using dropWhile_trailing [OF r, of "dropWhile isspace s"] by (simp only: strip_def)
qed

lemma drop_trailing_prefix: "\<exists>u. t = rev (dropWhile P (rev t)) @ u"
proof -
  have "rev (takeWhile P (rev t) @ dropWhile P (rev t)) = t"
    by (simp only: takeWhile_dropWhile_id rev_rev_ident)
  then have "t = rev (dropWhile P (rev t)) @ rev (takeWhile P (rev t))"
    by (simp only: rev_append)
  then show ?thesis ..
qed

lemma dropWhile_fixed: "t = [] \<or> \<not> P (hd t) \<Longrightarrow> dropWhile P t = t"
  by (cases t) auto

lemma strip_idem: "strip (strip s) = strip s"
proof -
  let ?t = "dropWhile isspace s"
  let ?r = "rev (dropWhile isspace (rev ?t))"
  have t: "?t = [] \<or> \<not> isspace (hd ?t)"
    using hd_dropWhile [of isspace s] by blast
  obtain u where u: "?t = ?r @ u"
    using drop_trailing_prefix [of ?t isspace] by blast
  have "?r = [] \<or> \<not> isspace (hd ?r)"
  proof (cases "?r = []")
    case True
    then show ?thesis by simp
  next
    case False
    then have "hd ?t = hd ?r" using u by (metis hd_append2)
    moreover from False u have "?t \<noteq> []" by (metis Nil_is_append_conv)
    ultimately show ?thesis using t by metis
  qed
  then have "dropWhile isspace ?r = ?r" by (rule dropWhile_fixed)
  then have "strip ?r = rev (dropWhile isspace (rev ?r))" by (simp only: strip_def)
  also have "\<dots> = ?r" by simp
  finally show ?thesis by (simp only: strip_def)
qed

lemma strip_P1: "strip '' P1 '' = ''P1''" and strip_P1_plain: "strip ''P1'' = ''P1''"
  and strip_P9: "strip ''P9'' = ''P9''" and strip_Pen: "strip ''Pen'' = ''Pen''"
  by (simp_all add: strip_def isspace_def)

subsection \<open>What an operation leaves alone\<close>

lemma print_files [simp]:
  "inventory_json (print m w) = inventory_json w"
  "staff_log_txt (print m w) = staff_log_txt w"
  "save_calls (print m w) = save_calls w"
  "stdout (print m w) = stdout w @ [m]"
  by (simp_all add: print_def)

lemma save_inventory_fields [simp]:
  "inventory_json (save_inventory c w) = Some (json_dump c)"
  "staff_log_txt (save_inventory c w) = staff_log_txt w"
  "save_calls (save_inventory c w) = Suc (save_calls w)"
  "stdout (save_inventory c w) = stdout w"
  by (simp_all add: save_inventory_def)

lemma log_staff_action_fields [simp]:
  "inventory_json (log_staff_action now a w) = inventory_json w"
  "save_calls (log_staff_action now a w) = save_calls w"
  "stdout (log_staff_action now a w) = stdout w"
  by (simp_all add: log_staff_action_def)

lemma load_inventory_print [simp]: "load_inventory (print m w) = load_inventory w"
  by (simp add: load_inventory_def)

lemma load_inventory_log [simp]: "load_inventory (log_staff_action now a w) = load_inventory w"
  by (simp add: load_inventory_def)

lemma load_saved: "distinct (keys c) \<Longrightarrow> load_inventory (save_inventory c w) = Inr c"
  by (simp add: load_inventory_def json_load_dump)

subsection \<open>Changing one entry of a dictionary\<close>

lemma keys_with_quantity [simp]: "keys (with_quantity pid q c) = keys c"
  by (induction c) (auto simp: with_quantity_def keys_def)

lemma with_quantity_absent: "pid \<notin> fst ` set c \<Longrightarrow> with_quantity pid q c = c"
  by (induction c) (auto simp: with_quantity_def)

lemma map_entry_with_quantity:
  "distinct (keys c) \<Longrightarrow>
   AList.map_entry pid (\<lambda>d. d\<lparr>quantity := q\<rparr>) c = with_quantity pid q c"
proof (induction c)
  case Nil
  then show ?case by (simp add: with_quantity_def)
next
  case (Cons e c)
  obtain k d where e: "e = (k, d)" by (cases e)
  from Cons.prems have fresh: "k \<notin> fst ` set c" and dist: "distinct (keys c)"
    by (auto simp: e keys_def)
  show ?case
  proof (cases "k = pid")
    case True
    with fresh have "with_quantity pid q c = c" by (simp add: with_quantity_absent)
    then have "with_quantity pid q (e # c) = (k, d\<lparr>quantity := q\<rparr>) # c"
      using True by (simp add: with_quantity_def e)
    then show ?thesis using True by (simp add: e)
  next
    case False
    then show ?thesis using Cons.IH [OF dist] by (simp add: e with_quantity_def)
  qed
qed

lemma map_of_with_quantity:
  "map_of (with_quantity pid q c) k =
     (if k = pid then map_option (\<lambda>d. d\<lparr>quantity := q\<rparr>) (map_of c k) else map_of c k)"
  by (induction c) (auto simp: with_quantity_def)

lemma delete_without: "AList.delete pid c = without pid c"
  by (induction c) (auto simp: without_def)

lemma keys_without: "keys (without pid c) = removeAll pid (keys c)"
  by (induction c) (auto simp: without_def keys_def)

lemma not_contains_without: "\<not> contains pid (without pid c)"
  by (simp add: contains_def keys_without)

lemma distinct_without: "distinct (keys c) \<Longrightarrow> distinct (keys (without pid c))"
  by (simp add: keys_without distinct_removeAll)

lemma map_of_without: "map_of (without pid c) k = (if k = pid then None else map_of c k)"
  by (induction c) (auto simp: without_def)

lemma length_without:
  "distinct (keys c) \<Longrightarrow> contains pid c \<Longrightarrow> Suc (length (without pid c)) = length c"
proof (induction c)
  case Nil
  then show ?case by (simp add: contains_def keys_def)
next
  case (Cons e c)
  obtain k d where e: "e = (k, d)" by (cases e)
  from Cons.prems have fresh: "k \<notin> set (keys c)" and dist: "distinct (keys c)"
    by (auto simp: e keys_def)
  show ?case
  proof (cases "k = pid")
    case True
    with fresh have "without pid c = c"
      by (force simp: without_def keys_def filter_id_conv)
    then show ?thesis using True by (simp add: e without_def)
  next
    case False
    with Cons.prems have "contains pid c" by (simp add: contains_def keys_def e)
    from Cons.IH [OF dist this] show ?thesis using False by (simp add: e without_def)
  qed
qed

lemma distinct_pen_catalog: "distinct (keys pen_catalog)"
  by (simp add: pen_catalog_def keys_def)

lemma contains_pen_catalog: "contains k pen_catalog = (k = ''P1'')"
  by (auto simp: pen_catalog_def contains_def keys_def)

subsection \<open>Adding a product\<close>

text \<open>
  C2: whenever \<open>add_product\<close> fails, because the ID is empty or is in the catalog
  already, because the quantity or the price is not a number, or because one of them is
  negative, the catalog in memory is the one from before and \<open>save_inventory\<close> was not
  called: the only effect is one printed message.
\<close>

theorem add_product_failure_changes_nothing:
  assumes "strip pid_line = [] \<or> contains (strip pid_line) inventory
           \<or> quantity_in = ValueError \<or> price_in = ValueError
           \<or> (\<exists>q. quantity_in = Parsed q \<and> q < 0)
           \<or> (\<exists>p. price_in = Parsed p \<and> float_lt0 p)"
  shows "(\<exists>m \<in> add_rejections.
            Admin_add_product pid_line name_line quantity_in price_in (inventory, w)
              = (inventory, print m w))
         \<and> fst (Admin_add_product pid_line name_line quantity_in price_in (inventory, w))
              = inventory
         \<and> inventory_json (snd (Admin_add_product pid_line name_line quantity_in price_in (inventory, w)))
              = inventory_json w
         \<and> save_calls (snd (Admin_add_product pid_line name_line quantity_in price_in (inventory, w)))
              = save_calls w"
proof -
  have "\<exists>m \<in> add_rejections.
          Admin_add_product pid_line name_line quantity_in price_in (inventory, w)
            = (inventory, print m w)"
    using assms
    by (auto simp: Admin_add_product_def add_rejections_def Let_def split: entered.splits)
  then show ?thesis by auto
qed

theorem add_product_failure_changes_nothing_witness:
  "contains (strip '' P1 '') pen_catalog
   \<and> Admin_add_product '' P1 '' ''Ink'' (Parsed 4) (Parsed (Finite 1)) (pen_catalog, fresh_world)
       = (pen_catalog, print DuplicateIdMsg fresh_world)
   \<and> save_calls (snd (Admin_add_product '' P1 '' ''Ink'' (Parsed 4) (Parsed (Finite 1))
        (pen_catalog, fresh_world))) = 0"
proof -
  have h: "contains (strip '' P1 '') pen_catalog"
    by (simp add: strip_P1 contains_pen_catalog)
  then have "strip '' P1 '' = [] \<or> contains (strip '' P1 '') pen_catalog
           \<or> Parsed 4 = ValueError \<or> Parsed (Finite 1) = ValueError
           \<or> (\<exists>q. Parsed 4 = Parsed q \<and> q < (0::int))
           \<or> (\<exists>p. Parsed (Finite 1) = Parsed p \<and> float_lt0 p)"
    by simp
  from add_product_failure_changes_nothing [OF this, of "''Ink''" fresh_world]
  have "save_calls (snd (Admin_add_product '' P1 '' ''Ink'' (Parsed 4) (Parsed (Finite 1))
        (pen_catalog, fresh_world))) = 0"
    by (simp add: fresh_world_def)
  moreover have "Admin_add_product '' P1 '' ''Ink'' (Parsed 4) (Parsed (Finite 1)) (pen_catalog, fresh_world)
       = (pen_catalog, print DuplicateIdMsg fresh_world)"
    using h by (simp add: Admin_add_product_def strip_P1)
  ultimately show ?thesis using h by simp
qed

subsection \<open>Updating the stock\<close>

text \<open>
  C3: for a product ID that is in the catalog and a new quantity of at least 0,
  \<open>update_stock\<close> of the admin and of the staff set the quantity of that product and
  nothing else (every entry keeps its place, its name and its price) and save the
  catalog, so that loading it again returns the catalog in memory; for an ID that is
  not in the catalog both print the not-found message and change nothing. The ID is the
  entered line, stripped.
\<close>

theorem update_stock_frame:
  assumes "distinct (keys inventory)"
  shows "(contains (strip pid_line) inventory \<and> 0 \<le> q \<longrightarrow>
            Admin_update_stock pid_line (Parsed q) (inventory, w)
              = (with_quantity (strip pid_line) q inventory,
                 print StockUpdatedMsg
                   (save_inventory (with_quantity (strip pid_line) q inventory) w))
          \<and> Staff_update_stock now pid_line (Parsed q) (inventory, w)
              = (with_quantity (strip pid_line) q inventory,
                 print StockUpdatedMsg
                   (log_staff_action now (staff_action (strip pid_line) q)
                      (save_inventory (with_quantity (strip pid_line) q inventory) w)))
          \<and> load_inventory (snd (Admin_update_stock pid_line (Parsed q) (inventory, w)))
              = Inr (with_quantity (strip pid_line) q inventory)
          \<and> load_inventory (snd (Staff_update_stock now pid_line (Parsed q) (inventory, w)))
              = Inr (with_quantity (strip pid_line) q inventory))
       \<and> (\<not> contains (strip pid_line) inventory \<longrightarrow>
            Admin_update_stock pid_line quantity_in (inventory, w)
              = (inventory, print NotFoundMsg w)
          \<and> Staff_update_stock now pid_line quantity_in (inventory, w)
              = (inventory, print NotFoundMsg w))"
proof -
  let ?pid = "strip pid_line"
  let ?c = "with_quantity ?pid q inventory"
  have upd: "AList.map_entry ?pid (\<lambda>d. d\<lparr>quantity := q\<rparr>) inventory = ?c"
    using assms by (rule map_entry_with_quantity)
  from assms have "distinct (keys ?c)" by simp
  then have loaded: "load_inventory (save_inventory ?c w) = Inr ?c"
    by (rule load_saved)
  have found: "contains ?pid inventory \<and> 0 \<le> q \<Longrightarrow>
      Admin_update_stock pid_line (Parsed q) (inventory, w)
        = (?c, print StockUpdatedMsg (save_inventory ?c w))
    \<and> Staff_update_stock now pid_line (Parsed q) (inventory, w)
        = (?c, print StockUpdatedMsg
                 (log_staff_action now (staff_action ?pid q) (save_inventory ?c w)))"
    by (simp add: Admin_update_stock_def Staff_update_stock_def Let_def upd)
  have missing: "\<not> contains ?pid inventory \<Longrightarrow>
      Admin_update_stock pid_line quantity_in (inventory, w) = (inventory, print NotFoundMsg w)
    \<and> Staff_update_stock now pid_line quantity_in (inventory, w)
        = (inventory, print NotFoundMsg w)"
    by (simp add: Admin_update_stock_def Staff_update_stock_def)
  show ?thesis using found missing loaded by simp
qed

theorem update_stock_frame_witness:
  "distinct (keys pen_catalog) \<and> contains (strip '' P1 '') pen_catalog \<and> (0::int) \<le> 3
   \<and> Admin_update_stock '' P1 '' (Parsed 3) (pen_catalog, fresh_world)
       = ([(''P1'', \<lparr>name = ''Pen'', quantity = 3, price = Finite (5 / 2)\<rparr>)],
          print StockUpdatedMsg
            (save_inventory [(''P1'', \<lparr>name = ''Pen'', quantity = 3, price = Finite (5 / 2)\<rparr>)]
               fresh_world))
   \<and> \<not> contains (strip ''P9'') pen_catalog
   \<and> Staff_update_stock ''now'' ''P9'' (Parsed 3) (pen_catalog, fresh_world)
       = (pen_catalog, print NotFoundMsg fresh_world)"
proof -
  have d: "distinct (keys pen_catalog)" by (rule distinct_pen_catalog)
  have p1: "contains (strip '' P1 '') pen_catalog \<and> (0::int) \<le> 3"
    by (simp add: strip_P1 contains_pen_catalog)
  have p9: "\<not> contains (strip ''P9'') pen_catalog"
    by (simp add: strip_P9 contains_pen_catalog)
  have c: "with_quantity (strip '' P1 '') 3 pen_catalog
           = [(''P1'', \<lparr>name = ''Pen'', quantity = 3, price = Finite (5 / 2)\<rparr>)]"
    by (simp add: strip_P1 with_quantity_def pen_catalog_def pen_def)
  from update_stock_frame [OF d, of "'' P1 ''" 3 fresh_world "''now''" "Parsed 3"] p1
  have "Admin_update_stock '' P1 '' (Parsed 3) (pen_catalog, fresh_world)
       = ([(''P1'', \<lparr>name = ''Pen'', quantity = 3, price = Finite (5 / 2)\<rparr>)],
          print StockUpdatedMsg
            (save_inventory [(''P1'', \<lparr>name = ''Pen'', quantity = 3, price = Finite (5 / 2)\<rparr>)]
               fresh_world))"
    by (simp only: c)
  moreover
  from update_stock_frame [OF d, of "''P9''" 3 fresh_world "''now''" "Parsed 3"] p9
  have "Staff_update_stock ''now'' ''P9'' (Parsed 3) (pen_catalog, fresh_world)
       = (pen_catalog, print NotFoundMsg fresh_world)"
    by blast
  ultimately show ?thesis using d p1 p9 by blast
qed

subsection \<open>Deleting a product\<close>

text \<open>
  C5: for a product ID that is in the catalog, \<open>delete_product\<close> takes out the entry of
  that ID and no other, and saves the catalog that is left, so that loading it again
  returns the catalog in memory; for an ID that is not in the catalog it prints the
  not-found message, leaves the catalog as it is and does not call \<open>save_inventory\<close>.
  The ID is the entered line, stripped.
\<close>

theorem delete_product_frame:
  assumes "distinct (keys inventory)"
  shows "(contains (strip pid_line) inventory \<longrightarrow>
            Admin_delete_product pid_line (inventory, w)
              = (without (strip pid_line) inventory,
                 print ProductDeletedMsg (save_inventory (without (strip pid_line) inventory) w))
          \<and> \<not> contains (strip pid_line) (without (strip pid_line) inventory)
          \<and> Suc (length (without (strip pid_line) inventory)) = length inventory
          \<and> load_inventory (snd (Admin_delete_product pid_line (inventory, w)))
              = Inr (without (strip pid_line) inventory))
       \<and> (\<not> contains (strip pid_line) inventory \<longrightarrow>
            Admin_delete_product pid_line (inventory, w) = (inventory, print NotFoundMsg w)
          \<and> inventory_json (snd (Admin_delete_product pid_line (inventory, w)))
              = inventory_json w
          \<and> save_calls (snd (Admin_delete_product pid_line (inventory, w))) = save_calls w)"
proof -
  let ?pid = "strip pid_line"
  let ?c = "without ?pid inventory"
  from assms have "distinct (keys ?c)" by (rule distinct_without)
  then have loaded: "load_inventory (save_inventory ?c w) = Inr ?c"
    by (rule load_saved)
  have found: "contains ?pid inventory \<Longrightarrow>
      Admin_delete_product pid_line (inventory, w)
        = (?c, print ProductDeletedMsg (save_inventory ?c w))"
    by (simp add: Admin_delete_product_def Let_def delete_without)
  have missing: "\<not> contains ?pid inventory \<Longrightarrow>
      Admin_delete_product pid_line (inventory, w) = (inventory, print NotFoundMsg w)"
    by (simp add: Admin_delete_product_def)
  have len: "contains ?pid inventory \<Longrightarrow> Suc (length ?c) = length inventory"
    using assms by (rule length_without)
  show ?thesis using found missing loaded len not_contains_without [of ?pid inventory]
    by simp
qed

theorem delete_product_frame_witness:
  "distinct (keys pen_catalog) \<and> contains (strip '' P1 '') pen_catalog
   \<and> Admin_delete_product '' P1 '' (pen_catalog, fresh_world)
       = ([], print ProductDeletedMsg (save_inventory [] fresh_world))
   \<and> \<not> contains (strip ''P9'') pen_catalog
   \<and> Admin_delete_product ''P9'' (pen_catalog, fresh_world)
       = (pen_catalog, print NotFoundMsg fresh_world)"
proof -
  have d: "distinct (keys pen_catalog)" by (rule distinct_pen_catalog)
  have p1: "contains (strip '' P1 '') pen_catalog"
    by (simp add: strip_P1 contains_pen_catalog)
  have p9: "\<not> contains (strip ''P9'') pen_catalog"
    by (simp add: strip_P9 contains_pen_catalog)
  have c: "without (strip '' P1 '') pen_catalog = []"
    by (simp add: strip_P1 without_def pen_catalog_def)
  from delete_product_frame [OF d, of "'' P1 ''" fresh_world] p1
  have "Admin_delete_product '' P1 '' (pen_catalog, fresh_world)
       = ([], print ProductDeletedMsg (save_inventory [] fresh_world))"
    by (simp only: c)
  moreover
  from delete_product_frame [OF d, of "''P9''" fresh_world] p9
  have "Admin_delete_product ''P9'' (pen_catalog, fresh_world)
       = (pen_catalog, print NotFoundMsg fresh_world)"
    by blast
  ultimately show ?thesis using d p1 p9 by blast
qed

subsection \<open>The product ID is stripped\<close>

text \<open>
  C10: the product ID that \<open>add_product\<close>, \<open>delete_product\<close> and both \<open>update_stock\<close>
  methods check and look up is the entered line without the whitespace around it:
  whitespace before and after an ID changes nothing, an ID of whitespace only is
  rejected as empty by \<open>add_product\<close>, and an ID whose stripped form is in the catalog is
  rejected as a duplicate by \<open>add_product\<close>.
\<close>

theorem product_id_is_stripped:
  assumes "list_all isspace l" and "list_all isspace r"
  shows "Admin_add_product (l @ pid @ r) name_line quantity_in price_in s
           = Admin_add_product pid name_line quantity_in price_in s
       \<and> Admin_delete_product (l @ pid @ r) s = Admin_delete_product pid s
       \<and> Admin_update_stock (l @ pid @ r) quantity_in s = Admin_update_stock pid quantity_in s
       \<and> Staff_update_stock now (l @ pid @ r) quantity_in s
           = Staff_update_stock now pid quantity_in s
       \<and> Admin_add_product pid name_line quantity_in price_in s
           = Admin_add_product (strip pid) name_line quantity_in price_in s
       \<and> Admin_add_product l name_line quantity_in price_in (inventory, w)
           = (inventory, print EmptyIdMsg w)
       \<and> (strip pid \<noteq> [] \<and> contains (strip pid) inventory \<longrightarrow>
            Admin_add_product (l @ pid @ r) name_line quantity_in price_in (inventory, w)
              = (inventory, print DuplicateIdMsg w))"
proof -
  have s: "strip (l @ pid @ r) = strip pid"
    using assms by (rule strip_surrounded)
  have e: "strip l = []"
    using assms(1) by (rule strip_whitespace)
  show ?thesis
    by (simp add: Admin_add_product_def Admin_delete_product_def Admin_update_stock_def
        Staff_update_stock_def s e strip_idem)
qed

theorem product_id_is_stripped_witness:
  "list_all isspace '' '' \<and> list_all isspace ''  ''
   \<and> Admin_add_product ('' '' @ ''P1'' @ ''  '') ''Ink'' (Parsed 4) (Parsed (Finite 1))
        (Admin_add_product ''P1'' ''Pen'' (Parsed 10) (Parsed (Finite (5 / 2))) ([], fresh_world))
       = (pen_catalog, print DuplicateIdMsg (print ProductAddedMsg (save_inventory pen_catalog fresh_world)))
   \<and> Admin_add_product '' '' ''Ink'' (Parsed 4) (Parsed (Finite 1)) (pen_catalog, fresh_world)
       = (pen_catalog, print EmptyIdMsg fresh_world)"
proof -
  have l: "list_all isspace '' ''" and r: "list_all isspace ''  ''"
    by (simp_all add: isspace_def)
  let ?w = "print ProductAddedMsg (save_inventory pen_catalog fresh_world)"
  have first: "Admin_add_product ''P1'' ''Pen'' (Parsed 10) (Parsed (Finite (5 / 2))) ([], fresh_world)
      = (pen_catalog, ?w)"
    by (simp add: Admin_add_product_def Let_def strip_P1_plain strip_Pen contains_def keys_def
        pen_catalog_def pen_def)
  have p: "strip ''P1'' \<noteq> [] \<and> contains (strip ''P1'') pen_catalog"
    by (simp add: strip_P1_plain contains_pen_catalog)
  from product_id_is_stripped [OF l r, of "''P1''" "''Ink''" "Parsed 4" "Parsed (Finite 1)"
      "(pen_catalog, ?w)" "''now''" pen_catalog ?w] p
  have "Admin_add_product ('' '' @ ''P1'' @ ''  '') ''Ink'' (Parsed 4) (Parsed (Finite 1))
          (pen_catalog, ?w) = (pen_catalog, print DuplicateIdMsg ?w)"
    by blast
  moreover
  from product_id_is_stripped [OF l r, of "''P1''" "''Ink''" "Parsed 4" "Parsed (Finite 1)"
      "(pen_catalog, fresh_world)" "''now''" pen_catalog fresh_world]
  have "Admin_add_product '' '' ''Ink'' (Parsed 4) (Parsed (Finite 1)) (pen_catalog, fresh_world)
       = (pen_catalog, print EmptyIdMsg fresh_world)"
    by blast
  ultimately show ?thesis using l r by (simp only: first simp_thms)
qed

subsection \<open>The audit log\<close>

lemma set_strip: "set (strip s) \<subseteq> set s"
proof -
  have "set (strip s) \<subseteq> set (dropWhile isspace s)"
    using set_dropWhileD [of _ isspace "rev (dropWhile isspace s)"]
    by (auto simp: strip_def)
  also have "\<dots> \<subseteq> set s"
    using set_dropWhileD [of _ isspace s] by auto
  finally show ?thesis .
qed

lemma digit_char_not_newline: "d < 10 \<Longrightarrow> digit_char d \<noteq> newline"
proof
  assume d: "d < 10" and "digit_char d = newline"
  then have "(of_char (digit_char d) :: nat) = of_char newline" by simp
  with d show False by (simp add: digit_char_def newline_def)
qed

lemma newline_notin_str_nat: "newline \<notin> set (str_nat n)"
proof (induction n rule: str_nat.induct)
  case (1 n)
  show ?case
  proof (cases "n < 10")
    case True
    then show ?thesis
      using digit_char_not_newline [of n] by (subst str_nat.simps) auto
  next
    case False
    have "n mod 10 < 10" by simp
    then have "digit_char (n mod 10) \<noteq> newline" by (rule digit_char_not_newline)
    with False "1.IH" show ?thesis
      by (subst str_nat.simps) auto
  qed
qed

lemma newline_notin_str_int: "newline \<notin> set (str_int q)"
  by (simp add: str_int_def newline_notin_str_nat) (simp add: newline_def)

lemma newline_notin_staff_action:
  "newline \<notin> set pid \<Longrightarrow> newline \<notin> set (staff_action pid q)"
  using newline_notin_str_int [of q] by (simp add: staff_action_def) (simp add: newline_def)

lemma one_line:
  assumes "newline \<notin> set now" and "newline \<notin> set a"
  shows "count_list (now @ '' - '' @ a @ [newline]) newline = 1"
  using assms by (auto simp: newline_def)

lemma staff_log_appended:
  "staff_log_txt (log_staff_action now a w) = Some (log_text w @ now @ '' - '' @ a @ [newline])"
  by (simp add: log_staff_action_def log_text_def newline_def split: option.splits)

lemma staff_log_changed: "staff_log_txt (log_staff_action now a w) \<noteq> staff_log_txt w"
  by (cases "staff_log_txt w") (simp_all add: log_staff_action_def)

text \<open>
  C4: a successful \<open>Staff.update_stock\<close> (the ID is in the catalog, the quantity is a
  number and at least 0) appends to \<open>staff_log.txt\<close> the text
  "timestamp - action" and a line end, where the action holds the product ID and the
  new quantity; this is one line when neither the timestamp nor the entered ID has a
  line end in it. A failing \<open>Staff.update_stock\<close> (the ID is not in the catalog, the
  quantity is negative or is not a number) leaves the file as it is.
\<close>

theorem staff_update_stock_audit:
  "(contains (strip pid_line) inventory \<and> 0 \<le> q \<longrightarrow>
      staff_log_txt (snd (Staff_update_stock now pid_line (Parsed q) (inventory, w)))
        = Some (log_text w @ now @ '' - '' @ staff_action (strip pid_line) q @ [newline])
    \<and> sublist (strip pid_line) (staff_action (strip pid_line) q)
    \<and> sublist (str_int q) (staff_action (strip pid_line) q)
    \<and> (newline \<notin> set now \<and> newline \<notin> set pid_line \<longrightarrow>
         count_list (now @ '' - '' @ staff_action (strip pid_line) q @ [newline]) newline = 1))
   \<and> (\<not> contains (strip pid_line) inventory \<or> quantity_in = ValueError
        \<or> (\<exists>n. quantity_in = Parsed n \<and> n < 0) \<longrightarrow>
      staff_log_txt (snd (Staff_update_stock now pid_line quantity_in (inventory, w)))
        = staff_log_txt w)"
proof -
  let ?pid = "strip pid_line"
  have appended: "contains ?pid inventory \<and> 0 \<le> q \<Longrightarrow>
      staff_log_txt (snd (Staff_update_stock now pid_line (Parsed q) (inventory, w)))
        = Some (log_text w @ now @ '' - '' @ staff_action ?pid q @ [newline])"
    by (simp add: Staff_update_stock_def Let_def staff_log_appended log_text_def)
  have has_pid: "sublist ?pid (staff_action ?pid q)"
    unfolding staff_action_def by (rule sublist_appendI)
  have "sublist (str_int q) ((''Staff updated stock of Product ID '' @ ?pid @ '' to '') @ str_int q @ [])"
    by (rule sublist_appendI)
  then have has_q: "sublist (str_int q) (staff_action ?pid q)"
    by (simp add: staff_action_def)
  have line: "newline \<notin> set now \<and> newline \<notin> set pid_line \<Longrightarrow>
      count_list (now @ '' - '' @ staff_action ?pid q @ [newline]) newline = 1"
  proof -
    assume a: "newline \<notin> set now \<and> newline \<notin> set pid_line"
    with set_strip [of pid_line] have "newline \<notin> set ?pid" by blast
    then have "newline \<notin> set (staff_action ?pid q)" by (rule newline_notin_staff_action)
    with a show ?thesis using one_line [of now "staff_action ?pid q"] by blast
  qed
  have failed: "\<not> contains ?pid inventory \<or> quantity_in = ValueError
        \<or> (\<exists>n. quantity_in = Parsed n \<and> n < 0) \<Longrightarrow>
      staff_log_txt (snd (Staff_update_stock now pid_line quantity_in (inventory, w)))
        = staff_log_txt w"
    by (auto simp: Staff_update_stock_def Let_def split: entered.splits)
  from appended has_pid has_q line failed show ?thesis by blast
qed

theorem staff_update_stock_audit_witness:
  "contains (strip '' P1 '') pen_catalog \<and> (0::int) \<le> 3
   \<and> staff_log_txt (snd (Staff_update_stock ''2026-01-01 10:00:00.000001'' '' P1 '' (Parsed 3)
        (pen_catalog, fresh_world)))
       = Some ''2026-01-01 10:00:00.000001 - Staff updated stock of Product ID P1 to 3\<newline>''
   \<and> \<not> contains (strip ''P9'') pen_catalog
   \<and> staff_log_txt (snd (Staff_update_stock ''2026-01-01 10:00:00.000001'' ''P9'' (Parsed 3)
        (pen_catalog, fresh_world))) = None"
proof -
  have p1: "contains (strip '' P1 '') pen_catalog \<and> (0::int) \<le> 3"
    by (simp add: strip_P1 contains_pen_catalog)
  have p9: "\<not> contains (strip ''P9'') pen_catalog"
    by (simp add: strip_P9 contains_pen_catalog)
  have three: "str_int 3 = ''3''"
    by code_simp
  from staff_update_stock_audit [of "'' P1 ''" pen_catalog 3
      "''2026-01-01 10:00:00.000001''" fresh_world "Parsed 3"] p1
  have "staff_log_txt (snd (Staff_update_stock ''2026-01-01 10:00:00.000001'' '' P1 '' (Parsed 3)
        (pen_catalog, fresh_world)))
       = Some (log_text fresh_world @ ''2026-01-01 10:00:00.000001'' @ '' - ''
               @ staff_action (strip '' P1 '') 3 @ [newline])"
    by blast
  then have a: "staff_log_txt (snd (Staff_update_stock ''2026-01-01 10:00:00.000001'' '' P1 '' (Parsed 3)
        (pen_catalog, fresh_world)))
       = Some ''2026-01-01 10:00:00.000001 - Staff updated stock of Product ID P1 to 3\<newline>''"
    by (simp add: log_text_def fresh_world_def staff_action_def strip_P1 three newline_def)
  from staff_update_stock_audit [of "''P9''" pen_catalog 3
      "''2026-01-01 10:00:00.000001''" fresh_world "Parsed 3"] p9
  have "staff_log_txt (snd (Staff_update_stock ''2026-01-01 10:00:00.000001'' ''P9'' (Parsed 3)
        (pen_catalog, fresh_world))) = staff_log_txt fresh_world"
    by blast
  then have b: "staff_log_txt (snd (Staff_update_stock ''2026-01-01 10:00:00.000001'' ''P9'' (Parsed 3)
        (pen_catalog, fresh_world))) = None"
    by (simp add: fresh_world_def)
  from p1 a p9 b show ?thesis by blast
qed

subsection \<open>The catalog invariant\<close>

lemma strip_empty: "strip [] = []"
  by (simp add: strip_def)

lemma float_ge0_if: "\<not> float_lt0 p \<Longrightarrow> p \<noteq> NaN \<Longrightarrow> float_ge0 p"
  by (cases p) auto

lemma update_new_key: "\<not> contains k c \<Longrightarrow> AList.update k v c = c @ [(k, v)]"
  by (rule update_fresh) (simp add: contains_def keys_def)

lemma valid_catalog_new_entry:
  assumes "valid_catalog c" and "\<not> contains pid c" and "pid \<noteq> []"
    and "0 \<le> quantity d" and "float_ge0 (price d)"
  shows "valid_catalog (c @ [(pid, d)])"
  using assms by (simp add: valid_catalog_def valid_product_def keys_def contains_def)

lemma valid_with_quantity:
  assumes "valid_catalog c" and "0 \<le> q"
  shows "valid_catalog (with_quantity pid q c)"
proof -
  from assms have "list_all valid_product (with_quantity pid q c)"
    by (auto simp: valid_catalog_def valid_product_def with_quantity_def list_all_iff
        split: if_splits)
  with assms(1) show ?thesis by (simp add: valid_catalog_def)
qed

lemma valid_without:
  assumes "valid_catalog c"
  shows "valid_catalog (without pid c)"
proof -
  from assms have "list_all valid_product (without pid c)"
    by (auto simp: valid_catalog_def without_def list_all_iff)
  with assms show ?thesis by (simp add: valid_catalog_def distinct_without)
qed

lemma add_product_valid:
  assumes v: "valid_catalog inventory" and n: "price_in \<noteq> Parsed NaN"
  shows "valid_catalog (fst (Admin_add_product pid_line name_line quantity_in price_in (inventory, w)))"
proof (cases "strip pid_line \<noteq> [] \<and> \<not> contains (strip pid_line) inventory
    \<and> (\<exists>q p. quantity_in = Parsed q \<and> price_in = Parsed p \<and> 0 \<le> q \<and> \<not> float_lt0 p)")
  case True
  then obtain q p where qp: "quantity_in = Parsed q" "price_in = Parsed p" "0 \<le> q" "\<not> float_lt0 p"
    by blast
  from n qp have "float_ge0 p" by (simp add: float_ge0_if)
  with v True qp have "valid_catalog
      (inventory @ [(strip pid_line, \<lparr>name = strip name_line, quantity = q, price = p\<rparr>)])"
    by (simp add: valid_catalog_new_entry)
  with True qp show ?thesis
    by (simp add: Admin_add_product_def Let_def update_new_key)
next
  case False
  have "fst (Admin_add_product pid_line name_line quantity_in price_in (inventory, w)) = inventory"
  proof (cases quantity_in)
    case ValueError
    then show ?thesis by (simp add: Admin_add_product_def Let_def)
  next
    case q: (Parsed q)
    show ?thesis
    proof (cases price_in)
      case ValueError
      then show ?thesis by (simp add: q Admin_add_product_def Let_def)
    next
      case p: (Parsed p)
      from False q p have "strip pid_line = [] \<or> contains (strip pid_line) inventory
          \<or> q < 0 \<or> float_lt0 p"
        by auto
      then show ?thesis by (auto simp: q p Admin_add_product_def Let_def)
    qed
  qed
  with v show ?thesis by simp
qed

lemma update_stock_valid:
  assumes "valid_catalog inventory"
  shows "valid_catalog (fst (Admin_update_stock pid_line quantity_in (inventory, w)))"
    and "valid_catalog (fst (Staff_update_stock now pid_line quantity_in (inventory, w)))"
proof -
  from assms have d: "distinct (keys inventory)" by (simp add: valid_catalog_def)
  show "valid_catalog (fst (Admin_update_stock pid_line quantity_in (inventory, w)))"
    using assms
    by (auto simp: Admin_update_stock_def Let_def map_entry_with_quantity [OF d]
        valid_with_quantity split: entered.splits)
  show "valid_catalog (fst (Staff_update_stock now pid_line quantity_in (inventory, w)))"
    using assms
    by (auto simp: Staff_update_stock_def Let_def map_entry_with_quantity [OF d]
        valid_with_quantity split: entered.splits)
qed

lemma delete_product_valid:
  assumes "valid_catalog inventory"
  shows "valid_catalog (fst (Admin_delete_product pid_line (inventory, w)))"
  using assms by (simp add: Admin_delete_product_def Let_def delete_without valid_without)

text \<open>
  C6, as the code has it: \<open>add_product\<close>, both \<open>update_stock\<close> methods and
  \<open>delete_product\<close> keep the product IDs unique and not empty, every quantity at least 0
  and every price at least 0; for \<open>add_product\<close> this is stated for an entered price
  other than NaN. The name of a product is not part of what they keep.
\<close>

theorem mutations_preserve_valid_catalog:
  assumes "valid_catalog inventory"
  shows "(price_in \<noteq> Parsed NaN \<longrightarrow>
            valid_catalog (fst (Admin_add_product pid_line name_line quantity_in price_in (inventory, w))))
       \<and> valid_catalog (fst (Admin_update_stock pid_line quantity_in (inventory, w)))
       \<and> valid_catalog (fst (Staff_update_stock now pid_line quantity_in (inventory, w)))
       \<and> valid_catalog (fst (Admin_delete_product pid_line (inventory, w)))"
  using add_product_valid [OF assms] update_stock_valid [OF assms] delete_product_valid [OF assms]
  by blast

theorem mutations_preserve_valid_catalog_witness:
  "valid_catalog pen_catalog \<and> Parsed (Finite 1) \<noteq> Parsed NaN
   \<and> valid_catalog (fst (Admin_add_product ''P2'' ''Ink'' (Parsed 4) (Parsed (Finite 1))
        (pen_catalog, fresh_world)))
   \<and> valid_catalog (fst (Admin_update_stock ''P1'' (Parsed 3) (pen_catalog, fresh_world)))
   \<and> valid_catalog (fst (Staff_update_stock ''now'' ''P1'' (Parsed 3) (pen_catalog, fresh_world)))
   \<and> valid_catalog (fst (Admin_delete_product ''P1'' (pen_catalog, fresh_world)))"
proof -
  have n: "Parsed (Finite 1) \<noteq> Parsed NaN" by simp
  from mutations_preserve_valid_catalog [OF valid_pen_catalog,
      where price_in = "Parsed (Finite 1)" and pid_line = "''P2''" and name_line = "''Ink''"
        and quantity_in = "Parsed 4" and w = fresh_world and now = "''now''"]
  have "valid_catalog (fst (Admin_add_product ''P2'' ''Ink'' (Parsed 4) (Parsed (Finite 1))
        (pen_catalog, fresh_world)))"
    using n by blast
  moreover
  from mutations_preserve_valid_catalog [OF valid_pen_catalog,
      where price_in = "Parsed (Finite 1)" and pid_line = "''P1''" and name_line = "''Ink''"
        and quantity_in = "Parsed 3" and w = fresh_world and now = "''now''"]
  have "valid_catalog (fst (Admin_update_stock ''P1'' (Parsed 3) (pen_catalog, fresh_world)))
   \<and> valid_catalog (fst (Staff_update_stock ''now'' ''P1'' (Parsed 3) (pen_catalog, fresh_world)))
   \<and> valid_catalog (fst (Admin_delete_product ''P1'' (pen_catalog, fresh_world)))"
    by blast
  ultimately show ?thesis using valid_pen_catalog n by blast
qed

text \<open>
  C6 as stated fails: \<open>add_product\<close> accepts an empty name, and it accepts the price NaN,
  which is neither below 0 nor at least 0.
\<close>

theorem mutations_invariant_counterexample:
  "named_catalog []
   \<and> \<not> named_catalog (fst (Admin_add_product ''P1'' [] (Parsed 1) (Parsed (Finite 1))
          ([], fresh_world)))
   \<and> \<not> named_catalog (fst (Admin_add_product ''P1'' ''Pen'' (Parsed 1) (Parsed NaN)
          ([], fresh_world)))"
proof -
  have none: "\<not> contains ''P1'' ([] :: catalog)"
    by (simp add: contains_def keys_def)
  have unnamed: "fst (Admin_add_product ''P1'' [] (Parsed 1) (Parsed (Finite 1)) ([], fresh_world))
      = [(''P1'', \<lparr>name = [], quantity = 1, price = Finite 1\<rparr>)]"
    using none by (simp add: Admin_add_product_def Let_def strip_P1_plain strip_empty)
  have unpriced: "fst (Admin_add_product ''P1'' ''Pen'' (Parsed 1) (Parsed NaN) ([], fresh_world))
      = [(''P1'', \<lparr>name = ''Pen'', quantity = 1, price = NaN\<rparr>)]"
    using none by (simp add: Admin_add_product_def Let_def strip_P1_plain strip_Pen)
  have "named_catalog []"
    by (simp add: named_catalog_def valid_catalog_def keys_def)
  moreover have "\<not> named_catalog [(''P1'', \<lparr>name = [], quantity = 1, price = Finite 1\<rparr>)]"
    by (simp add: named_catalog_def)
  moreover have "\<not> named_catalog [(''P1'', \<lparr>name = ''Pen'', quantity = 1, price = NaN\<rparr>)]"
    by (simp add: named_catalog_def valid_catalog_def valid_product_def)
  ultimately show ?thesis
    by (simp only: unnamed unpriced simp_thms)
qed

subsection \<open>The arithmetic of doubles on examples\<close>

lemmas double_eval =
  int_times_double_def float_of_int_def round_double_def binade_def pow2_def
  round_half_even_def Let_def bit_length.simps

lemma ten_times_two_and_a_half: "int_times_double 10 (Finite (5 / 2)) = Inr (Finite 25)"
  by (simp add: double_eval)

lemma round_twenty_five: "round_double 25 = Finite 25"
  by (simp add: double_eval)

lemma zero_plus_twenty_five: "double_add (Finite 0) (Finite 25) = Finite 25"
  by (simp add: round_twenty_five)

text \<open>
  \<open>float("0.1")\<close> is not one tenth, and \<open>3 * 0.1\<close> is the double that Python shows as
  \<open>0.30000000000000004\<close>.
\<close>

lemma one_tenth: "round_double (1 / 10) = Finite (3602879701896397 / 36028797018963968)"
  by (simp add: double_eval)

lemma three_tenths:
  "int_times_double 3 (Finite (3602879701896397 / 36028797018963968))
     = Inr (Finite (1351079888211149 / 4503599627370496))"
  by (simp add: double_eval)

text \<open>An \<open>int\<close> of 310 digits is too large to become a float.\<close>

lemma huge_quantity: "int_times_double huge (Finite 1) = Inl OverflowError"
  by (simp add: huge_def double_eval)

subsection \<open>Viewing the products\<close>

lemma view_products_loop_eq:
  "map (\<lambda>e. product_value ar (snd e)) items = map Inr vs \<Longrightarrow>
   view_products_loop ar items total_value w =
     Inr (foldl (float_add ar) total_value vs,
          w\<lparr>stdout := stdout w @ concat (map2 product_report items vs)\<rparr>)"
proof (induction items arbitrary: total_value w vs)
  case Nil
  then show ?case by simp
next
  case (Cons e items)
  obtain pid d where e: "e = (pid, d)" by (cases e)
  from Cons.prems obtain v vs' where vs: "vs = v # vs'" by (cases vs) auto
  with Cons.prems have v: "int_times_float ar (quantity d) (price d) = Inr v"
    and rest: "map (\<lambda>e. product_value ar (snd e)) items = map Inr vs'"
    by (auto simp: e product_value_def)
  show ?case
    by (simp add: e vs v Cons.IH [OF rest] Let_def print_def product_report_def)
qed

text \<open>
  C7, as the code has it: for a catalog that is not empty, and in which the product of
  quantity and price raises for no entry, \<open>Admin.view_products\<close> prints the header, then
  for each entry, in the order of the catalog, its ID, name, quantity, price and value
  (quantity times price, as the arithmetic computes it), with the low-stock alert after
  an entry exactly when its quantity is below 5, and last the total, which is these
  values added in that order, starting from 0. For the empty catalog it prints that the
  inventory is empty and nothing else.
\<close>

theorem view_products_report:
  "(inventory \<noteq> [] \<and> map (\<lambda>e. product_value ar (snd e)) inventory = map Inr vs \<longrightarrow>
      Admin_view_products ar (inventory, w)
        = Returned (inventory,
            w\<lparr>stdout := stdout w @ [ProductListHeader]
                 @ concat (map2 product_report inventory vs)
                 @ [TotalValueMsg (float_sum ar vs)]\<rparr>))
   \<and> Admin_view_products ar ([], w) = Returned ([], print InventoryEmptyMsg w)"
proof -
  have shown: "inventory \<noteq> [] \<and> map (\<lambda>e. product_value ar (snd e)) inventory = map Inr vs \<Longrightarrow>
      Admin_view_products ar (inventory, w)
        = Returned (inventory,
            w\<lparr>stdout := stdout w @ [ProductListHeader]
                 @ concat (map2 product_report inventory vs)
                 @ [TotalValueMsg (float_sum ar vs)]\<rparr>)"
  proof -
    assume a: "inventory \<noteq> [] \<and> map (\<lambda>e. product_value ar (snd e)) inventory = map Inr vs"
    then have "view_products_loop ar inventory (Finite 0) (print ProductListHeader w) =
        Inr (foldl (float_add ar) (Finite 0) vs,
             (print ProductListHeader w)\<lparr>stdout := stdout (print ProductListHeader w)
                @ concat (map2 product_report inventory vs)\<rparr>)"
      by (simp add: view_products_loop_eq)
    with a show ?thesis
      by (simp add: Admin_view_products_def float_sum_def print_def)
  qed
  have empty: "Admin_view_products ar ([], w) = Returned ([], print InventoryEmptyMsg w)"
    by (simp add: Admin_view_products_def)
  from shown empty show ?thesis by blast
qed

theorem view_products_report_witness:
  "pen_catalog \<noteq> []
   \<and> map (\<lambda>e. product_value double_arithmetic (snd e)) pen_catalog = map Inr [Finite 25]
   \<and> Admin_view_products double_arithmetic (pen_catalog, fresh_world)
       = Returned (pen_catalog,
           fresh_world\<lparr>stdout := [ProductListHeader,
              ProductBlock ''P1'' ''Pen'' 10 (Finite (5 / 2)) (Finite 25),
              TotalValueMsg (Finite 25)]\<rparr>)"
proof -
  have h: "pen_catalog \<noteq> []
      \<and> map (\<lambda>e. product_value double_arithmetic (snd e)) pen_catalog = map Inr [Finite 25]"
    by (simp add: pen_catalog_def pen_def product_value_def double_arithmetic_def
        ten_times_two_and_a_half)
  have rep: "concat (map2 product_report pen_catalog [Finite 25])
      = [ProductBlock ''P1'' ''Pen'' 10 (Finite (5 / 2)) (Finite 25)]"
    by (simp add: pen_catalog_def pen_def product_report_def)
  have tot: "float_sum double_arithmetic [Finite 25] = Finite 25"
    by (simp add: float_sum_def double_arithmetic_def round_twenty_five)
  from view_products_report [of pen_catalog double_arithmetic "[Finite 25]" fresh_world] h
  have "Admin_view_products double_arithmetic (pen_catalog, fresh_world)
        = Returned (pen_catalog,
            fresh_world\<lparr>stdout := stdout fresh_world @ [ProductListHeader]
                 @ concat (map2 product_report pen_catalog [Finite 25])
                 @ [TotalValueMsg (float_sum double_arithmetic [Finite 25])]\<rparr>)"
    by blast
  then have "Admin_view_products double_arithmetic (pen_catalog, fresh_world)
       = Returned (pen_catalog,
           fresh_world\<lparr>stdout := [ProductListHeader,
              ProductBlock ''P1'' ''Pen'' 10 (Finite (5 / 2)) (Finite 25),
              TotalValueMsg (Finite 25)]\<rparr>)"
    by (simp only: rep tot) (simp add: fresh_world_def)
  with h show ?thesis by blast
qed

text \<open>
  C7 as stated fails for the empty catalog: no total is reported, the one thing printed
  is that the inventory is empty.
\<close>

theorem view_products_empty_counterexample:
  "stdout (snd (state_of (Admin_view_products double_arithmetic ([], fresh_world))))
     = [InventoryEmptyMsg]"
  by (simp add: Admin_view_products_def fresh_world_def)

text \<open>
  A quantity that is too large to become a float ends \<open>Admin.view_products\<close> with an
  \<open>OverflowError\<close> after the header.
\<close>

lemma view_products_overflow:
  "Admin_view_products double_arithmetic
     ([(''P1'', \<lparr>name = ''Pen'', quantity = huge, price = Finite 1\<rparr>)], fresh_world)
   = Raised OverflowError
       ([(''P1'', \<lparr>name = ''Pen'', quantity = huge, price = Finite 1\<rparr>)],
        print ProductListHeader fresh_world)"
  by (simp add: Admin_view_products_def double_arithmetic_def huge_quantity)

subsection \<open>Who writes the audit log\<close>

lemma view_products_loop_keeps_log:
  "staff_log_txt (case view_products_loop ar items total_value w of
       Inl (e, w') \<Rightarrow> w' | Inr (t, w') \<Rightarrow> w') = staff_log_txt w"
proof (induction items arbitrary: total_value w)
  case Nil
  then show ?case by simp
next
  case (Cons e items)
  obtain pid d where e: "e = (pid, d)" by (cases e)
  show ?case
  proof (cases "int_times_float ar (quantity d) (price d)")
    case (Inl err)
    then show ?thesis by (simp add: e)
  next
    case (Inr v)
    then show ?thesis by (simp add: e Let_def Cons.IH)
  qed
qed

lemma admin_view_keeps_log:
  "staff_log_txt (snd (state_of (Admin_view_products ar (inventory, w)))) = staff_log_txt w"
proof (cases "inventory = []")
  case True
  then show ?thesis by (simp add: Admin_view_products_def)
next
  case False
  have "staff_log_txt (case view_products_loop ar inventory (Finite 0) (print ProductListHeader w) of
       Inl (e, w') \<Rightarrow> w' | Inr (t, w') \<Rightarrow> w') = staff_log_txt (print ProductListHeader w)"
    by (rule view_products_loop_keeps_log)
  with False show ?thesis
    by (auto simp: Admin_view_products_def split: sum.splits)
qed

lemma admin_do_keeps_log:
  "staff_log_txt (snd (state_of (admin_do ar op s))) = staff_log_txt (snd s)"
proof -
  obtain inventory w where s: "s = (inventory, w)" by (cases s)
  show ?thesis
  proof (cases op)
    case (AddProduct pid_line name_line quantity_in price_in)
    then show ?thesis
      by (simp add: s Admin_add_product_def Let_def split: entered.splits)
  next
    case ViewProducts
    then show ?thesis
      by (simp add: s admin_view_keeps_log)
  next
    case (UpdateStock pid_line quantity_in)
    then show ?thesis
      by (simp add: s Admin_update_stock_def Let_def split: entered.splits)
  next
    case (DeleteProduct pid_line)
    then show ?thesis
      by (simp add: s Admin_delete_product_def Let_def)
  next
    case ViewStaffLogs
    then show ?thesis
      by (simp add: s Admin_view_staff_logs_def split: option.splits)
  qed
qed

lemma admin_session_keeps_log:
  "staff_log_txt (snd (state_of (admin_session ar ops s))) = staff_log_txt (snd s)"
proof (induction ops arbitrary: s)
  case Nil
  then show ?case by simp
next
  case (Cons op ops)
  show ?case
  proof (cases "admin_do ar op s")
    case (Returned s')
    with admin_do_keeps_log [of ar op s] have "staff_log_txt (snd s') = staff_log_txt (snd s)"
      by simp
    with Returned Cons.IH [of s'] show ?thesis by simp
  next
    case (Raised e s')
    with admin_do_keeps_log [of ar op s] show ?thesis by simp
  qed
qed

lemma staff_lines_keep_log:
  "staff_log_txt (foldl (\<lambda>w' (pid, details).
       print (StaffProductLine pid (name details) (quantity details) (price details)) w') w items)
     = staff_log_txt w"
  by (induction items arbitrary: w) (simp_all add: split_def)

lemma staff_view_keeps_log:
  "staff_log_txt (snd (Staff_view_products (inventory, w))) = staff_log_txt w"
  by (simp add: Staff_view_products_def staff_lines_keep_log)

lemma staff_update_log:
  "staff_log_txt (snd (Staff_update_stock now pid_line quantity_in (inventory, w))) \<noteq> staff_log_txt w
   \<longleftrightarrow> (\<exists>q. quantity_in = Parsed q \<and> contains (strip pid_line) inventory \<and> 0 \<le> q)"
proof (cases "contains (strip pid_line) inventory")
  case False
  then show ?thesis by (simp add: Staff_update_stock_def)
next
  case True
  show ?thesis
  proof (cases quantity_in)
    case ValueError
    with True show ?thesis by (simp add: Staff_update_stock_def)
  next
    case (Parsed q)
    show ?thesis
    proof (cases "q < 0")
      case True
      with Parsed \<open>contains (strip pid_line) inventory\<close> show ?thesis
        by (simp add: Staff_update_stock_def)
    next
      case False
      let ?c = "AList.map_entry (strip pid_line) (\<lambda>d. d\<lparr>quantity := q\<rparr>) inventory"
      from False Parsed \<open>contains (strip pid_line) inventory\<close>
      have "staff_log_txt (snd (Staff_update_stock now pid_line quantity_in (inventory, w)))
          = staff_log_txt (log_staff_action now (staff_action (strip pid_line) q)
              (save_inventory ?c w))"
        by (simp add: Staff_update_stock_def Let_def)
      moreover have "staff_log_txt (save_inventory ?c w) = staff_log_txt w"
        by simp
      ultimately have "staff_log_txt (snd (Staff_update_stock now pid_line quantity_in (inventory, w)))
          \<noteq> staff_log_txt w"
        using staff_log_changed [of now "staff_action (strip pid_line) q" "save_inventory ?c w"]
        by metis
      with False Parsed \<open>contains (strip pid_line) inventory\<close> show ?thesis by simp
    qed
  qed
qed

text \<open>
  C8: no sequence of admin operations (add, view, update stock, delete, view the staff
  log) changes \<open>staff_log.txt\<close>, whatever the arithmetic computes and whether the
  session ends by itself or by an exception; a staff operation changes the file exactly
  when it is an \<open>update_stock\<close> that succeeds.
\<close>

theorem audit_log_written_by_staff_only:
  "staff_log_txt (snd (state_of (admin_session ar ops s))) = staff_log_txt (snd s)
   \<and> (staff_log_txt (snd (staff_do op (inventory, w))) \<noteq> staff_log_txt w
        \<longleftrightarrow> (\<exists>now pid_line q. op = StaffUpdateStock now pid_line (Parsed q)
                \<and> contains (strip pid_line) inventory \<and> 0 \<le> q))"
proof -
  have "staff_log_txt (snd (staff_do op (inventory, w))) \<noteq> staff_log_txt w
        \<longleftrightarrow> (\<exists>now pid_line q. op = StaffUpdateStock now pid_line (Parsed q)
                \<and> contains (strip pid_line) inventory \<and> 0 \<le> q)"
  proof (cases op)
    case StaffViewProducts
    then show ?thesis by (simp add: staff_view_keeps_log)
  next
    case (StaffUpdateStock now pid_line quantity_in)
    then show ?thesis by (simp add: staff_update_log)
  qed
  with admin_session_keeps_log show ?thesis by blast
qed

theorem audit_log_written_by_staff_only_witness:
  "staff_log_txt (snd (state_of (admin_session double_arithmetic
      [AddProduct ''P2'' ''Ink'' (Parsed 4) (Parsed (Finite 1)), UpdateStock ''P1'' (Parsed 3),
       ViewProducts, DeleteProduct ''P2'', ViewStaffLogs] (pen_catalog, fresh_world)))) = None"
  using audit_log_written_by_staff_only [of double_arithmetic
      "[AddProduct ''P2'' ''Ink'' (Parsed 4) (Parsed (Finite 1)), UpdateStock ''P1'' (Parsed 3),
        ViewProducts, DeleteProduct ''P2'', ViewStaffLogs]" "(pen_catalog, fresh_world)"]
  by (simp add: fresh_world_def)

end
